theory Spec2Isabelle
  imports Complex_Main "HOL-Library.Sublist"
begin

section \<open>The county-demographics operation interpreter (hw4.py)\<close>

text \<open>
  A shallow embedding of \<^verbatim>\<open>hw4.py\<close>. Every Python function of the file is a HOL
  function of the same name. What Python does by side effect is made explicit:
  \<^item> \<^verbatim>\<open>print\<close> appends one line to standard output, so a function that prints returns
    the list of lines it printed, in order (each without its final newline);
  \<^item> an exception is a value: a function that can raise returns \<open>exn + 'a\<close>, with
    \<open>Inl\<close> for the exception that leaves it;
  \<^item> the local variable \<^verbatim>\<open>data\<close> of \<^verbatim>\<open>execute_operations\<close> is threaded through
    the loop and returned at the end, so that the dataset seen by later lines can be
    talked about.
  Strings are Isabelle strings: lists of 8-bit characters, read as the code points below
  256 of a Python \<^verbatim>\<open>str\<close>.
\<close>

subsection \<open>Python values\<close>

text \<open>
  The numbers stored in a record's dictionaries are Python ints and floats. A float is
  its real value, or one of the two infinities, or NaN; the sign of a zero is not
  represented. Comparison of such numbers is exact in Python (also between an int and a
  float), so it is defined here; float arithmetic, parsing and printing round, and are
  taken from the interpreter as parameters below.
\<close>

datatype num = PyInt int | PyFloat real | PInf | NInf | NaN

datatype exn =
    ValueError string
  | IndexError
  | KeyError string
  | ZeroDivisionError
  | OverflowError
  | SystemExit nat

fun fin :: "num \<Rightarrow> real" where
  "fin (PyInt i) = real_of_int i"
| "fin (PyFloat r) = r"
| "fin _ = 0"

text \<open>\<^verbatim>\<open>a < b\<close> on numbers: false as soon as one side is NaN.\<close>

fun num_lt :: "num \<Rightarrow> num \<Rightarrow> bool" where
  "num_lt NaN _ = False"
| "num_lt _ NaN = False"
| "num_lt PInf _ = False"
| "num_lt _ PInf = True"
| "num_lt _ NInf = False"
| "num_lt NInf _ = True"
| "num_lt a b = (fin a < fin b)"

text \<open>\<^verbatim>\<open>a > b\<close> on numbers.\<close>

definition num_gt :: "num \<Rightarrow> num \<Rightarrow> bool" where
  "num_gt a b = num_lt b a"

text \<open>
  The builtins whose results depend on IEEE-754 rounding or on the float printing
  algorithm. Every function below takes them as the record \<open>B\<close>, and every theorem
  holds for all of them. (The file needs Python 3.12: \<^verbatim>\<open>display\<close> has a backslash
  inside an f-string expression. From that version on \<^verbatim>\<open>sum\<close> over floats is a
  compensated summation, not a left fold of \<^verbatim>\<open>+\<close>, so the sum is a builtin here
  too.) The parameters give the value of an operation that returns; when an operation
  raises instead is not a matter of rounding, and is defined below. Printing an int is
  decimal notation; the refusal of \<^verbatim>\<open>str\<close> to print an int of more than 4300 digits
  (a setting of the interpreter) is not represented.
\<close>

record builtins =
  float_of_str :: "string \<Rightarrow> num option"
    \<comment> \<open>\<^verbatim>\<open>float(s)\<close>; \<open>None\<close> when it raises ValueError\<close>
  float_repr :: "num \<Rightarrow> string"
    \<comment> \<open>\<^verbatim>\<open>repr(x)\<close> and \<^verbatim>\<open>str(x)\<close> of a float\<close>
  float_format15 :: "num \<Rightarrow> string"
    \<comment> \<open>\<^verbatim>\<open>format(x, '.15f')\<close> of an int or a float\<close>
  float_sum :: "num list \<Rightarrow> num"
    \<comment> \<open>\<^verbatim>\<open>sum(xs)\<close> when some item of \<open>xs\<close> is a float and no addition overflows\<close>
  float_mul :: "num \<Rightarrow> num \<Rightarrow> num"
    \<comment> \<open>\<^verbatim>\<open>x * y\<close> when \<open>x\<close> or \<open>y\<close> is a float and both convert to a float\<close>
  float_truediv :: "num \<Rightarrow> num \<Rightarrow> num"
    \<comment> \<open>\<^verbatim>\<open>x / y\<close> when the divisor is not zero and the quotient is in range\<close>

fun show_nat :: "nat \<Rightarrow> string" where
  "show_nat n =
     (if n < 10 then [''0123456789'' ! n]
      else show_nat (n div 10) @ [''0123456789'' ! (n mod 10)])"

declare show_nat.simps [simp del]

definition show_int :: "int \<Rightarrow> string" where
  "show_int i = (if i < 0 then ''-'' @ show_nat (nat (- i)) else show_nat (nat i))"

text \<open>\<^verbatim>\<open>str(x)\<close> and \<^verbatim>\<open>repr(x)\<close> of a number: an int prints in decimal.\<close>

definition py_str :: "builtins \<Rightarrow> num \<Rightarrow> string" where
  "py_str B x = (case x of PyInt i \<Rightarrow> show_int i | _ \<Rightarrow> float_repr B x)"

fun is_int :: "num \<Rightarrow> bool" where
  "is_int (PyInt i) = True"
| "is_int _ = False"

fun int_val :: "num \<Rightarrow> int" where
  "int_val (PyInt i) = i"
| "int_val _ = 0"

text \<open>
  An int converts to a float when it rounds (to nearest, ties to even) to a double, that
  is when its magnitude is below \<open>2^1024 - 2^970\<close>, halfway between the largest double
  and \<open>2^1024\<close>. Beyond that the conversion raises OverflowError. Arithmetic that mixes
  an int with a float converts the int first.
\<close>

definition int_too_large :: "int \<Rightarrow> bool" where
  "int_too_large i \<longleftrightarrow> 2 ^ 1024 - 2 ^ 970 \<le> \<bar>i\<bar>"

fun converts :: "num \<Rightarrow> bool" where
  "converts (PyInt i) = (\<not> int_too_large i)"
| "converts _ = True"

fun is_zero :: "num \<Rightarrow> bool" where
  "is_zero (PyInt i) = (i = 0)"
| "is_zero (PyFloat r) = (r = 0)"
| "is_zero _ = False"

text \<open>
  The result of a float operation is a float: whatever number the parameter gives is
  read as one.
\<close>

fun as_float :: "num \<Rightarrow> num" where
  "as_float (PyInt i) = PyFloat (real_of_int i)"
| "as_float x = x"

text \<open>
  \<^verbatim>\<open>sum(xs)\<close> starts from the int 0 and is exact as long as every item is an int.
  At the first float the exact sum of the ints before it is converted, and every int
  after it is converted when it is added: OverflowError if one of them is too large.
\<close>

definition sum_overflows :: "num list \<Rightarrow> bool" where
  "sum_overflows xs \<longleftrightarrow>
     \<not> list_all is_int xs \<and>
     (int_too_large (sum_list (map int_val (takeWhile is_int xs))) \<or>
      \<not> list_all converts (dropWhile is_int xs))"

definition py_sum :: "builtins \<Rightarrow> num list \<Rightarrow> exn + num" where
  "py_sum B xs =
     (if list_all is_int xs then Inr (PyInt (sum_list (map int_val xs)))
      else if sum_overflows xs then Inl OverflowError
      else Inr (as_float (float_sum B xs)))"

text \<open>\<^verbatim>\<open>x * y\<close>: exact on two ints, a float otherwise.\<close>

definition py_mul :: "builtins \<Rightarrow> num \<Rightarrow> num \<Rightarrow> exn + num" where
  "py_mul B x y =
     (case (x, y) of
        (PyInt i, PyInt j) \<Rightarrow> Inr (PyInt (i * j))
      | _ \<Rightarrow>
          if converts x \<and> converts y then Inr (as_float (float_mul B x y))
          else Inl OverflowError)"

text \<open>
  \<^verbatim>\<open>x / y\<close> is true division: the result is a float also for two ints. Two ints are
  divided exactly and the quotient rounded: ZeroDivisionError for the divisor 0,
  OverflowError for a quotient that rounds beyond the doubles. Otherwise the operands are
  converted first (OverflowError) and the divisor is tested next (ZeroDivisionError).
\<close>

definition py_truediv :: "builtins \<Rightarrow> num \<Rightarrow> num \<Rightarrow> exn + num" where
  "py_truediv B x y =
     (case (x, y) of
        (PyInt i, PyInt j) \<Rightarrow>
          if j = 0 then Inl ZeroDivisionError
          else if 2 ^ 1024 - 2 ^ 970 \<le> \<bar>real_of_int i / real_of_int j\<bar>
          then Inl OverflowError
          else Inr (as_float (float_truediv B x y))
      | _ \<Rightarrow>
          if \<not> (converts x \<and> converts y) then Inl OverflowError
          else if is_zero y then Inl ZeroDivisionError
          else Inr (as_float (float_truediv B x y)))"

text \<open>\<^verbatim>\<open>format(x, '.15f')\<close>: an int is converted to a float first.\<close>

definition py_format15 :: "builtins \<Rightarrow> num \<Rightarrow> exn + string" where
  "py_format15 B x = (if converts x then Inr (float_format15 B x) else Inl OverflowError)"

subsection \<open>Python strings, lists and dictionaries\<close>

text \<open>
  \<^verbatim>\<open>str.isspace\<close> on one character, for the code points below 256: tab, line feed,
  vertical tab, form feed, carriage return, the four separators 0x1C to 0x1F, space,
  next line (0x85) and no-break space (0xA0).
\<close>

definition isspace :: "char \<Rightarrow> bool" where
  "isspace c \<longleftrightarrow>
     c \<in> set [CHR 0x09, CHR 0x0A, CHR 0x0B, CHR 0x0C, CHR 0x0D, CHR 0x1C, CHR 0x1D,
              CHR 0x1E, CHR 0x1F, CHR 0x20, CHR 0x85, CHR 0xA0]"

text \<open>\<^verbatim>\<open>s.strip()\<close>\<close>

definition strip :: "string \<Rightarrow> string" where
  "strip s = rev (dropWhile isspace (rev (dropWhile isspace s)))"

text \<open>\<^verbatim>\<open>s.rstrip(chars)\<close>\<close>

definition rstrip :: "string \<Rightarrow> string \<Rightarrow> string" where
  "rstrip chars s = rev (dropWhile (\<lambda>c. c \<in> set chars) (rev s))"

text \<open>\<^verbatim>\<open>s.split(c)\<close> for a separator of one character: never the empty list.\<close>

fun split :: "char \<Rightarrow> string \<Rightarrow> string list" where
  "split c [] = [[]]"
| "split c (x # xs) =
     (if x = c then [] # split c xs
      else (case split c xs of
              [] \<Rightarrow> [[x]]
            | p # ps \<Rightarrow> (x # p) # ps))"

text \<open>\<^verbatim>\<open>sep.join(xs)\<close>\<close>

fun join :: "string \<Rightarrow> string list \<Rightarrow> string" where
  "join sep [] = []"
| "join sep [x] = x"
| "join sep (x # y # ys) = x @ sep @ join sep (y # ys)"

text \<open>\<^verbatim>\<open>xs[i]\<close> for \<open>i \<ge> 0\<close>: IndexError out of range.\<close>

definition index :: "'a list \<Rightarrow> nat \<Rightarrow> exn + 'a" where
  "index xs i = (if i < length xs then Inr (xs ! i) else Inl IndexError)"

text \<open>\<^verbatim>\<open>d[k]\<close>: KeyError when the key is absent.\<close>

definition subscript :: "(string \<rightharpoonup> 'v) \<Rightarrow> string \<Rightarrow> exn + 'v" where
  "subscript d k = (case d k of None \<Rightarrow> Inl (KeyError k) | Some v \<Rightarrow> Inr v)"

text \<open>\<^verbatim>\<open>d.get(k, default)\<close>\<close>

definition get :: "(string \<rightharpoonup> 'v) \<Rightarrow> string \<Rightarrow> 'v \<Rightarrow> 'v" where
  "get d k dflt = (case d k of None \<Rightarrow> dflt | Some v \<Rightarrow> v)"

text \<open>
  \<^verbatim>\<open>[x for x in xs if p(x)]\<close> where \<open>p\<close> can raise: the records are visited in order
  and the first exception leaves the comprehension.
\<close>

fun comprehension_if :: "('a \<Rightarrow> exn + bool) \<Rightarrow> 'a list \<Rightarrow> exn + 'a list" where
  "comprehension_if p [] = Inr []"
| "comprehension_if p (x # xs) =
     (case p x of
        Inl e \<Rightarrow> Inl e
      | Inr b \<Rightarrow>
          (case comprehension_if p xs of
             Inl e \<Rightarrow> Inl e
           | Inr ys \<Rightarrow> Inr (if b then x # ys else ys)))"

text \<open>
  The items of a generator \<^verbatim>\<open>(f(x) for x in xs)\<close> as \<^verbatim>\<open>sum\<close> consumes them: in
  order, up to the first exception.
\<close>

fun generator :: "('a \<Rightarrow> exn + 'b) \<Rightarrow> 'a list \<Rightarrow> exn + 'b list" where
  "generator f [] = Inr []"
| "generator f (x # xs) =
     (case f x of
        Inl e \<Rightarrow> Inl e
      | Inr y \<Rightarrow>
          (case generator f xs of
             Inl e \<Rightarrow> Inl e
           | Inr ys \<Rightarrow> Inr (y # ys)))"

subsection \<open>The records\<close>

text \<open>
  A \<^verbatim>\<open>CountyDemographics\<close> object, as \<^verbatim>\<open>hw4.py\<close> reads it: two strings and five
  dictionaries from key names to numbers.
\<close>

record county_demographics =
  age :: "string \<rightharpoonup> num"
  county :: string
  education :: "string \<rightharpoonup> num"
  ethnicities :: "string \<rightharpoonup> num"
  income :: "string \<rightharpoonup> num"
  population :: "string \<rightharpoonup> num"
  state :: string

subsection \<open>Field resolution\<close>

definition get_field_value :: "county_demographics \<Rightarrow> string \<Rightarrow> exn + num" where
  "get_field_value entry field =
     (let parts = split CHR ''.'' field in
      case index parts 0 of
        Inl e \<Rightarrow> Inl e
      | Inr prefix' \<Rightarrow>
          (let key = join ''.'' (drop 1 parts) in
           if prefix' = ''Education'' then subscript (education entry) key
           else if prefix' = ''Ethnicities'' then subscript (ethnicities entry) key
           else if prefix' = ''Income'' then subscript (income entry) key
           else if prefix' = ''Population'' then subscript (population entry) key
           else Inl (ValueError
                  (''Field '' @ [CHR 0x27] @ field @ [CHR 0x27] @ '' not found in entry.''))))"

subsection \<open>The filters\<close>

definition filter_state ::
  "county_demographics list \<Rightarrow> string \<Rightarrow> string list \<times> county_demographics list" where
  "filter_state data st =
     (let filtered = filter (\<lambda>entry. state entry = st) data in
      ([''Filter: state == '' @ st @ '' ('' @ show_nat (length filtered) @ '' entries)''],
       filtered))"

definition filter_gt ::
  "builtins \<Rightarrow> county_demographics list \<Rightarrow> string \<Rightarrow> num \<Rightarrow>
     exn + string list \<times> county_demographics list" where
  "filter_gt B data field v =
     (case comprehension_if
             (\<lambda>entry. case get_field_value entry field of
                         Inl e \<Rightarrow> Inl e
                       | Inr x \<Rightarrow> Inr (num_gt x v)) data of
        Inl e \<Rightarrow> Inl e
      | Inr filtered \<Rightarrow>
          Inr ([''Filter: '' @ field @ '' gt '' @ py_str B v @ '' ('' @
                  show_nat (length filtered) @ '' entries)''],
               filtered))"

definition filter_lt ::
  "builtins \<Rightarrow> county_demographics list \<Rightarrow> string \<Rightarrow> num \<Rightarrow>
     exn + string list \<times> county_demographics list" where
  "filter_lt B data field v =
     (case comprehension_if
             (\<lambda>entry. case get_field_value entry field of
                         Inl e \<Rightarrow> Inl e
                       | Inr x \<Rightarrow> Inr (num_lt x v)) data of
        Inl e \<Rightarrow> Inl e
      | Inr filtered \<Rightarrow>
          Inr ([''Filter: '' @ field @ '' lt '' @ py_str B v @ '' ('' @
                  show_nat (length filtered) @ '' entries)''],
               filtered))"

subsection \<open>The reports\<close>

text \<open>
  \<^verbatim>\<open>repr(d.get(k, 'N/A'))\<close>: the number as Python prints it, or the default string
  with the quotes \<^verbatim>\<open>repr\<close> puts around it.
\<close>

definition repr_get :: "builtins \<Rightarrow> (string \<rightharpoonup> num) \<Rightarrow> string \<Rightarrow> string" where
  "repr_get B d k =
     (case d k of None \<Rightarrow> [CHR 0x27] @ ''N/A'' @ [CHR 0x27] | Some v \<Rightarrow> py_str B v)"

text \<open>The lines \<^verbatim>\<open>display\<close> prints for one record: the body of its loop.\<close>

definition display_entry :: "builtins \<Rightarrow> county_demographics \<Rightarrow> string list" where
  "display_entry B entry =
     [county entry @ '', '' @ state entry,
      ''        Population: '' @ repr_get B (population entry) ''2014 Population'',
      ''        Age:'',
      ''               < 5: '' @ repr_get B (age entry) ''< 5'' @ ''%'',
      ''               < 18: '' @ repr_get B (age entry) ''< 18'' @ ''%'',
      ''               > 65: '' @ repr_get B (age entry) ''> 65'' @ ''%'',
      ''        Education'',
      ''                >= High School: '' @
         repr_get B (education entry) ''High School or Higher'' @ ''%'',
      ''                >= Bachelor's: '' @
         repr_get B (education entry) ''Bachelor's Degree or Higher'' @ ''%'',
      ''        Ethnicity Percentages'',
      ''                American Indian and Alaska Native: '' @
         repr_get B (ethnicities entry) ''American Indian and Alaska Native Alone'' @ ''%'',
      ''                Asian Alone: '' @ repr_get B (ethnicities entry) ''Asian Alone'' @ ''%'',
      ''                Black Alone: '' @ repr_get B (ethnicities entry) ''Black Alone'' @ ''%'',
      ''                Hispanic or Latino: '' @
         repr_get B (ethnicities entry) ''Hispanic or Latino'' @ ''%'',
      ''                Native Hawaiian and Other Pacific Islander Alone: '' @
         repr_get B (ethnicities entry)
           ''Native Hawaiian and Other Pacific Islander Alone'' @ ''%'',
      ''                Two or More Races: '' @
         repr_get B (ethnicities entry) ''Two or More Races'' @ ''%'',
      ''                White Alone: '' @ repr_get B (ethnicities entry) ''White Alone'' @ ''%'',
      ''                White Alone, not Hispanic or Latino: '' @
         repr_get B (ethnicities entry) ''White Alone, not Hispanic or Latino'' @ ''%'',
      ''        Income'',
      ''                Median Household: '' @
         repr_get B (income entry) ''Median Household Income'',
      ''                Per Capita: '' @ repr_get B (income entry) ''Per Capita Income'',
      ''                Below Poverty Level: '' @
         repr_get B (income entry) ''Persons Below Poverty Level'' @ ''%'',
      '''']"

definition display :: "builtins \<Rightarrow> county_demographics list \<Rightarrow> string list" where
  "display B data = concat (map (display_entry B) data)"

definition population_total ::
  "builtins \<Rightarrow> county_demographics list \<Rightarrow> exn + string list" where
  "population_total B data =
     (case py_sum B (map (\<lambda>entry. get (population entry) ''2014 Population'' (PyInt 0)) data) of
        Inl e \<Rightarrow> Inl e
      | Inr total_population \<Rightarrow> Inr [''2014 population: '' @ py_str B total_population])"

text \<open>
  The clause \<^verbatim>\<open>except ValueError as e: print(f"Error: {e}")\<close> around the body of
  \<^verbatim>\<open>population_field\<close> and of \<^verbatim>\<open>percent_field\<close>: a ValueError becomes a printed
  line, any other exception leaves the function.
\<close>

definition except_ValueError :: "exn + string list \<Rightarrow> exn + string list" where
  "except_ValueError r =
     (case r of
        Inl (ValueError msg) \<Rightarrow> Inr [''Error: '' @ msg]
      | Inl e \<Rightarrow> Inl e
      | Inr out \<Rightarrow> Inr out)"

text \<open>
  In both functions the total is summed first, then the items of the second sum are
  computed record by record: the field is resolved, divided by 100, and multiplied by
  the population entry. Each of these steps can raise. The items are floats, so adding
  them raises nothing, and the model computes them all before it sums them.
\<close>

definition population_field ::
  "builtins \<Rightarrow> county_demographics list \<Rightarrow> string \<Rightarrow> exn + string list" where
  "population_field B data field =
     except_ValueError
       (case py_sum B
               (map (\<lambda>entry. get (population entry) ''2014 Population'' (PyInt 0)) data) of
          Inl e \<Rightarrow> Inl e
        | Inr total_population \<Rightarrow>
            (case generator
                    (\<lambda>entry. case get_field_value entry field of
                                Inl e \<Rightarrow> Inl e
                              | Inr x \<Rightarrow>
                                  (case py_truediv B x (PyInt 100) of
                                     Inl e \<Rightarrow> Inl e
                                   | Inr q \<Rightarrow>
                                       py_mul B
                                         (get (population entry) ''2014 Population'' (PyInt 0))
                                         q)) data of
               Inl e \<Rightarrow> Inl e
             | Inr items \<Rightarrow>
                 (case py_sum B items of
                    Inl e \<Rightarrow> Inl e
                  | Inr sub_population \<Rightarrow>
                      (case py_format15 B sub_population of
                         Inl e \<Rightarrow> Inl e
                       | Inr formatted \<Rightarrow>
                           (let sub_population_str = rstrip ''.'' (rstrip ''0'' formatted)
                            in Inr [''2014 '' @ field @ '' population: '' @
                                      sub_population_str])))))"

definition percent_field ::
  "builtins \<Rightarrow> county_demographics list \<Rightarrow> string \<Rightarrow> exn + string list" where
  "percent_field B data field =
     except_ValueError
       (case py_sum B
               (map (\<lambda>entry. get (population entry) ''2014 Population'' (PyInt 0)) data) of
          Inl e \<Rightarrow> Inl e
        | Inr total_population \<Rightarrow>
            (case generator
                    (\<lambda>entry. case get_field_value entry field of
                                Inl e \<Rightarrow> Inl e
                              | Inr x \<Rightarrow>
                                  (case py_truediv B x (PyInt 100) of
                                     Inl e \<Rightarrow> Inl e
                                   | Inr q \<Rightarrow>
                                       py_mul B
                                         (get (population entry) ''2014 Population'' (PyInt 0))
                                         q)) data of
               Inl e \<Rightarrow> Inl e
             | Inr items \<Rightarrow>
                 (case py_sum B items of
                    Inl e \<Rightarrow> Inl e
                  | Inr sub_population \<Rightarrow>
                      if num_gt total_population (PyInt 0) then
                        (case py_truediv B sub_population total_population of
                           Inl e \<Rightarrow> Inl e
                         | Inr q \<Rightarrow>
                             (case py_mul B q (PyInt 100) of
                                Inl e \<Rightarrow> Inl e
                              | Inr percentage \<Rightarrow>
                                  Inr [''2014 '' @ field @ '' percentage: '' @
                                         py_str B percentage]))
                      else Inr [''2014 '' @ field @ '' percentage: 0.000000''])))"

subsection \<open>The interpreter\<close>

text \<open>\<^verbatim>\<open>float(s)\<close>\<close>

definition float :: "builtins \<Rightarrow> string \<Rightarrow> exn + num" where
  "float B s =
     (case float_of_str B s of
        None \<Rightarrow>
          Inl (ValueError
                 (''could not convert string to float: '' @ [CHR 0x27] @ s @ [CHR 0x27]))
      | Some v \<Rightarrow> Inr v)"

text \<open>
  The body of the \<^verbatim>\<open>try\<close> statement of \<^verbatim>\<open>execute_operations\<close>, on the stripped
  line: the lines printed and the new value of \<^verbatim>\<open>data\<close>, or the exception raised.
  No branch prints before it raises.
\<close>

definition try_body ::
  "builtins \<Rightarrow> county_demographics list \<Rightarrow> string \<Rightarrow>
     exn + string list \<times> county_demographics list" where
  "try_body B data line =
     (let parts = split CHR '':'' line in
      case index parts 0 of
        Inl e \<Rightarrow> Inl e
      | Inr op \<Rightarrow>
          if op = ''display'' then Inr (display B data, data)
          else if op = ''filter-state'' then
            (case index parts 1 of
               Inl e \<Rightarrow> Inl e
             | Inr st \<Rightarrow> Inr (filter_state data st))
          else if op = ''filter-gt'' then
            (case index parts 1 of
               Inl e \<Rightarrow> Inl e
             | Inr field \<Rightarrow>
                 (case index parts 2 of
                    Inl e \<Rightarrow> Inl e
                  | Inr s \<Rightarrow>
                      (case float B s of
                         Inl e \<Rightarrow> Inl e
                       | Inr v \<Rightarrow> filter_gt B data field v)))
          else if op = ''filter-lt'' then
            (case index parts 1 of
               Inl e \<Rightarrow> Inl e
             | Inr field \<Rightarrow>
                 (case index parts 2 of
                    Inl e \<Rightarrow> Inl e
                  | Inr s \<Rightarrow>
                      (case float B s of
                         Inl e \<Rightarrow> Inl e
                       | Inr v \<Rightarrow> filter_lt B data field v)))
          else if op = ''population-total'' then
            (case population_total B data of
               Inl e \<Rightarrow> Inl e
             | Inr out \<Rightarrow> Inr (out, data))
          else if prefix ''population'' op then
            (case index parts 1 of
               Inl e \<Rightarrow> Inl e
             | Inr field \<Rightarrow>
                 (case population_field B data field of
                    Inl e \<Rightarrow> Inl e
                  | Inr out \<Rightarrow> Inr (out, data)))
          else if prefix ''percent'' op then
            (case index parts 1 of
               Inl e \<Rightarrow> Inl e
             | Inr field \<Rightarrow>
                 (case percent_field B data field of
                    Inl e \<Rightarrow> Inl e
                  | Inr out \<Rightarrow> Inr (out, data)))
          else Inl (ValueError ''Unknown operation''))"

text \<open>
  One turn of the \<^verbatim>\<open>for\<close> loop, on the line at index \<open>idx\<close> of the file: the lines
  printed, and either the value of \<^verbatim>\<open>data\<close> the next turn starts from, or the
  exception that no handler caught and that ends the process. The handler of the loop
  catches ValueError and IndexError only.
\<close>

definition loop_body ::
  "builtins \<Rightarrow> county_demographics list \<Rightarrow> nat \<Rightarrow> string \<Rightarrow>
     string list \<times> (exn + county_demographics list)" where
  "loop_body B data idx line0 =
     (let line = strip line0 in
      if line = [] then ([], Inr data)
      else
        (case try_body B data line of
           Inl (ValueError msg) \<Rightarrow>
             ([''Error: Malformed line '' @ show_nat (idx + 1) @ '': '' @ line], Inr data)
         | Inl IndexError \<Rightarrow>
             ([''Error: Malformed line '' @ show_nat (idx + 1) @ '': '' @ line], Inr data)
         | Inl e \<Rightarrow> ([], Inl e)
         | Inr (out, data') \<Rightarrow> (out, Inr data')))"

text \<open>The \<^verbatim>\<open>for\<close> loop over \<^verbatim>\<open>enumerate(operations)\<close>, from index \<open>idx\<close> on.\<close>

fun for_loop ::
  "builtins \<Rightarrow> county_demographics list \<Rightarrow> nat \<Rightarrow> string list \<Rightarrow>
     string list \<times> (exn + county_demographics list)" where
  "for_loop B data idx [] = ([], Inr data)"
| "for_loop B data idx (line0 # rest) =
     (case loop_body B data idx line0 of
        (out, Inl e) \<Rightarrow> (out, Inl e)
      | (out, Inr data') \<Rightarrow>
          (case for_loop B data' (idx + 1) rest of
             (out', r) \<Rightarrow> (out @ out', r)))"

text \<open>
  The file system is the map \<open>fs\<close> from a path to what \<^verbatim>\<open>readlines()\<close> returns for
  it: the lines of the file, each with its line break; \<open>None\<close> when opening the path
  raises FileNotFoundError.
\<close>

definition execute_operations ::
  "builtins \<Rightarrow> (string \<rightharpoonup> string list) \<Rightarrow> county_demographics list \<Rightarrow> string \<Rightarrow>
     string list \<times> (exn + county_demographics list)" where
  "execute_operations B fs data operations_file =
     (case fs operations_file of
        None \<Rightarrow>
          ([''Error: Operations file '' @ [CHR 0x27] @ operations_file @ [CHR 0x27] @
              '' not found.''],
           Inl (SystemExit 1))
      | Some operations \<Rightarrow> for_loop B data 0 operations)"

text \<open>
  \<^verbatim>\<open>main\<close>, with \<^verbatim>\<open>sys.argv\<close> and the result of \<^verbatim>\<open>get_data()\<close> (of the module
  \<^verbatim>\<open>build_data\<close>, which is not part of the file) as arguments.
\<close>

definition main ::
  "builtins \<Rightarrow> (string \<rightharpoonup> string list) \<Rightarrow> county_demographics list \<Rightarrow> string list \<Rightarrow>
     string list \<times> (exn + county_demographics list)" where
  "main B fs loaded argv =
     (if length argv < 2 then
        ([''Usage: python3 hw4.py <operations_file>''], Inl (SystemExit 1))
      else
        (case index argv 1 of
           Inl e \<Rightarrow> ([], Inl e)
         | Inr operations_file \<Rightarrow>
             (case execute_operations B fs loaded operations_file of
                (out, r) \<Rightarrow> ((show_nat (length loaded) @ '' records loaded'') # out, r))))"

subsection \<open>Field resolution, as the specification words it\<close>

text \<open>
  The specification describes a field as \<^verbatim>\<open>Category.KeyName\<close>, cut at the first dot
  only, with the category matched exactly against four names. This is that description;
  it is compared with \<open>get_field_value\<close> below.
\<close>

definition spec_split_first_dot :: "string \<Rightarrow> string \<times> string" where
  "spec_split_first_dot field =
     (takeWhile (\<lambda>c. c \<noteq> CHR ''.'') field, drop 1 (dropWhile (\<lambda>c. c \<noteq> CHR ''.'') field))"

definition spec_resolve_field :: "county_demographics \<Rightarrow> string \<Rightarrow> exn + num" where
  "spec_resolve_field entry field =
     (case spec_split_first_dot field of
        (category, key_name) \<Rightarrow>
          if category = ''Population'' then subscript (population entry) key_name
          else if category = ''Education'' then subscript (education entry) key_name
          else if category = ''Ethnicities'' then subscript (ethnicities entry) key_name
          else if category = ''Income'' then subscript (income entry) key_name
          else Inl (ValueError
                 (''Field '' @ [CHR 0x27] @ field @ [CHR 0x27] @ '' not found in entry.'')))"

subsection \<open>The two sums, as the specification words them\<close>




subsection \<open>Data for the worked examples\<close>

text \<open>
  One interpretation of the builtins: exact arithmetic on finite values, and the text
  CPython gives for the few numbers and strings that occur in the examples. On those
  inputs IEEE-754 arithmetic is exact too, so the examples are runs of the program.
\<close>

definition ex_builtins :: builtins where
  "ex_builtins =
     \<lparr>float_of_str = map_of [(''10'', PyFloat 10)],
      float_repr = (\<lambda>x. case map_of [(PyFloat 10, ''10.0''), (PyFloat 25, ''25.0'')] x of
                           None \<Rightarrow> [] | Some s \<Rightarrow> s),
      float_format15 = (\<lambda>x. case map_of [(PyInt 0, ''0.000000000000000''),
                                          (PyFloat 50, ''50.000000000000000''),
                                          (PyFloat 55, ''55.000000000000000''),
                                          (PyFloat (3 / 4), ''0.750000000000000''),
                                          (PyFloat (203 / 4), ''50.750000000000000'')] x of
                           None \<Rightarrow> [] | Some s \<Rightarrow> s),
      float_sum = (\<lambda>xs. PyFloat (sum_list (map fin xs))),
      float_mul = (\<lambda>x y. PyFloat (fin x * fin y)),
      float_truediv = (\<lambda>x y. PyFloat (fin x / fin y))\<rparr>"

definition ex_alpha :: county_demographics where
  "ex_alpha =
     \<lparr>age = Map.empty, county = ''Alpha'',
      education = [''Bachelor's Degree or Higher'' \<mapsto> PyFloat 25],
      ethnicities = Map.empty, income = Map.empty,
      population = [''2014 Population'' \<mapsto> PyInt 200], state = ''CA''\<rparr>"

definition ex_beta :: county_demographics where
  "ex_beta =
     \<lparr>age = Map.empty, county = ''Beta'',
      education = [''Bachelor's Degree or Higher'' \<mapsto> PyFloat 5],
      ethnicities = Map.empty, income = Map.empty,
      population = [''2014 Population'' \<mapsto> PyInt 100], state = ''NY''\<rparr>"

definition ex_empty :: county_demographics where
  "ex_empty =
     \<lparr>age = [''< 5'' \<mapsto> PyFloat 0], county = ''Gamma'',
      education = [''Bachelor's Degree or Higher'' \<mapsto> PyFloat 0],
      ethnicities = Map.empty, income = Map.empty,
      population = [''2014 Population'' \<mapsto> PyInt 0], state = ''NV''\<rparr>"

definition ex_hamlet :: county_demographics where
  "ex_hamlet =
     \<lparr>age = Map.empty, county = ''Delta'',
      education = [''Bachelor's Degree or Higher'' \<mapsto> PyFloat 25],
      ethnicities = Map.empty, income = Map.empty,
      population = [''2014 Population'' \<mapsto> PyInt 3], state = ''CA''\<rparr>"

definition ex_nopop :: county_demographics where
  "ex_nopop =
     \<lparr>age = Map.empty, county = ''Epsilon'',
      education = [''Bachelor's Degree or Higher'' \<mapsto> PyFloat 75],
      ethnicities = Map.empty, income = Map.empty,
      population = Map.empty, state = ''OR''\<rparr>"

definition ex_huge :: county_demographics where
  "ex_huge =
     \<lparr>age = Map.empty, county = ''Zeta'',
      education = [''Bachelor's Degree or Higher'' \<mapsto> PyFloat 25],
      ethnicities = Map.empty, income = Map.empty,
      population = [''2014 Population'' \<mapsto> PyInt (10 ^ 400)], state = ''TX''\<rparr>"

definition ex_debt :: county_demographics where
  "ex_debt =
     \<lparr>age = Map.empty, county = ''Eta'',
      education = [''Bachelor's Degree or Higher'' \<mapsto> PyFloat 25],
      ethnicities = Map.empty, income = Map.empty,
      population = [''2014 Population'' \<mapsto> PyInt (- (10 ^ 400))], state = ''TX''\<rparr>"

lemmas ex_defs = ex_builtins_def ex_alpha_def ex_beta_def ex_empty_def ex_hamlet_def
  ex_nopop_def ex_huge_def ex_debt_def

lemmas eval_defs = loop_body_def try_body_def strip_def isspace_def index_def float_def
  filter_lt_def filter_gt_def filter_state_def get_field_value_def subscript_def get_def
  population_field_def percent_field_def population_total_def py_sum_def py_mul_def
  py_truediv_def py_str_def num_gt_def show_nat.simps show_int_def rstrip_def Let_def
  py_format15_def except_ValueError_def sum_overflows_def int_too_large_def

section \<open>Field resolution\<close>

lemma split_not_Nil: "split c s \<noteq> []"
  by (induction s) (auto split: list.splits)

lemma hd_split: "hd (split c s) = takeWhile (\<lambda>x. x \<noteq> c) s"
  by (induction s) (auto split: list.splits simp: split_not_Nil)

lemma join_split: "join [c] (split c s) = s"
proof (induction s)
  case Nil
  show ?case by simp
next
  case (Cons x xs)
  show ?case
  proof (cases "x = c")
    case True
    obtain p ps where "split c xs = p # ps"
      using split_not_Nil [of c xs] by (cases "split c xs") auto
    with True Cons show ?thesis by simp
  next
    case False
    obtain p ps where sp: "split c xs = p # ps"
      using split_not_Nil [of c xs] by (cases "split c xs") auto
    with False Cons show ?thesis by (cases ps) auto
  qed
qed

lemma tl_split:
  "join [c] (tl (split c s)) = drop 1 (dropWhile (\<lambda>x. x \<noteq> c) s)"
proof (induction s)
  case Nil
  show ?case by simp
next
  case (Cons x xs)
  show ?case
  proof (cases "x = c")
    case True
    then show ?thesis by (simp add: join_split)
  next
    case False
    obtain p ps where sp: "split c xs = p # ps"
      using split_not_Nil [of c xs] by (cases "split c xs") auto
    with False Cons show ?thesis by simp
  qed
qed

lemma get_field_value_parts:
  "get_field_value entry field =
     (let prefix' = takeWhile (\<lambda>c. c \<noteq> CHR ''.'') field;
          key = drop 1 (dropWhile (\<lambda>c. c \<noteq> CHR ''.'') field) in
           if prefix' = ''Education'' then subscript (education entry) key
           else if prefix' = ''Ethnicities'' then subscript (ethnicities entry) key
           else if prefix' = ''Income'' then subscript (income entry) key
           else if prefix' = ''Population'' then subscript (population entry) key
           else Inl (ValueError
                  (''Field '' @ [CHR 0x27] @ field @ [CHR 0x27] @ '' not found in entry.'')))"
proof -
  obtain p ps where sp: "split CHR ''.'' field = p # ps"
    using split_not_Nil [of "CHR ''.''" field] by (cases "split CHR ''.'' field") auto
  have p: "p = takeWhile (\<lambda>c. c \<noteq> CHR ''.'') field"
    using hd_split [of "CHR ''.''" field] sp by simp
  have k: "join ''.'' ps = drop 1 (dropWhile (\<lambda>c. c \<noteq> CHR ''.'') field)"
    using tl_split [of "CHR ''.''" field] sp by simp
  show ?thesis
    unfolding get_field_value_def Let_def index_def sp
    using p k by (simp add: drop_Suc)
qed

lemma subscript_not_ValueError: "subscript d k \<noteq> Inl (ValueError msg)"
  by (simp add: subscript_def split: option.splits)

text \<open>
  Claim C3. For every record and every field string, \<open>get_field_value\<close> cuts the field
  at the first dot only (the key name keeps any further dots), matches the category
  exactly against Population, Education, Ethnicities and Income, looks the key name up
  in that dictionary, and raises the ValueError of an unknown field exactly when the
  category is none of the four names.
\<close>

theorem get_field_value_resolves:
  "get_field_value entry field = spec_resolve_field entry field \<and>
   ((\<exists>msg. get_field_value entry field = Inl (ValueError msg)) \<longleftrightarrow>
      fst (spec_split_first_dot field) \<notin> {''Population'', ''Education'', ''Ethnicities'', ''Income''})"
  unfolding get_field_value_parts spec_resolve_field_def spec_split_first_dot_def Let_def
  by (auto simp: subscript_not_ValueError)

theorem get_field_value_resolves_witness:
  "get_field_value ex_alpha ''Income.a.b'' = spec_resolve_field ex_alpha ''Income.a.b'' \<and>
   spec_split_first_dot ''Income.a.b'' = (''Income'', ''a.b'') \<and>
   spec_resolve_field ex_alpha ''Income.a.b'' = Inl (KeyError ''a.b'') \<and>
   get_field_value ex_alpha ''Education.Bachelor's Degree or Higher'' = Inr (PyFloat 25) \<and>
   get_field_value ex_alpha ''education.Bachelor's Degree or Higher'' =
     Inl (ValueError ''Field 'education.Bachelor's Degree or Higher' not found in entry.'')"
  using get_field_value_resolves [of ex_alpha "''Income.a.b''"]
  by (simp add: ex_defs eval_defs spec_resolve_field_def spec_split_first_dot_def)

section \<open>The filters\<close>

lemma num_lt_asym: "num_lt a b \<Longrightarrow> \<not> num_lt b a"
  by (cases a; cases b) auto

lemma comprehension_if_Inr:
  "comprehension_if p xs = Inr ys \<Longrightarrow>
     ys = filter (\<lambda>x. p x = Inr True) xs \<and> (\<forall>x\<in>set xs. \<exists>b. p x = Inr b)"
  by (induction xs arbitrary: ys) (auto split: sum.splits if_splits)

lemma comprehension_if_total:
  "\<forall>x\<in>set xs. \<exists>b. p x = Inr b \<Longrightarrow>
     comprehension_if p xs = Inr (filter (\<lambda>x. p x = Inr True) xs)"
  by (induction xs) (auto split: sum.splits)

lemma compare_comprehension_Inr:
  assumes "comprehension_if
             (\<lambda>entry. case get_field_value entry field of
                         Inl e \<Rightarrow> Inl e
                       | Inr x \<Rightarrow> Inr (R x)) data = Inr data'"
  shows "data' = filter (\<lambda>e. \<exists>x. get_field_value e field = Inr x \<and> R x) data"
    and "\<forall>e\<in>set data. \<exists>x. get_field_value e field = Inr x"
proof -
  let ?p = "\<lambda>entry. case get_field_value entry field of
                       Inl e \<Rightarrow> Inl e
                     | Inr x \<Rightarrow> Inr (R x)"
  have eq: "(?p e = Inr True) = (\<exists>x. get_field_value e field = Inr x \<and> R x)" for e
    by (cases "get_field_value e field") auto
  from comprehension_if_Inr [OF assms]
  show "data' = filter (\<lambda>e. \<exists>x. get_field_value e field = Inr x \<and> R x) data"
    by (simp add: eq)
  show "\<forall>e\<in>set data. \<exists>x. get_field_value e field = Inr x"
  proof
    fix e
    assume "e \<in> set data"
    with comprehension_if_Inr [OF assms] obtain b where "?p e = Inr b" by blast
    then show "\<exists>x. get_field_value e field = Inr x"
      by (cases "get_field_value e field") auto
  qed
qed

lemma compare_comprehension_total:
  assumes "\<forall>e\<in>set data. \<exists>x. get_field_value e field = Inr x"
  shows "comprehension_if
           (\<lambda>entry. case get_field_value entry field of
                       Inl e \<Rightarrow> Inl e
                     | Inr x \<Rightarrow> Inr (R x)) data =
         Inr (filter (\<lambda>e. \<exists>x. get_field_value e field = Inr x \<and> R x) data)"
proof -
  let ?p = "\<lambda>entry. case get_field_value entry field of
                       Inl e \<Rightarrow> Inl e
                     | Inr x \<Rightarrow> Inr (R x)"
  have eq: "(?p e = Inr True) = (\<exists>x. get_field_value e field = Inr x \<and> R x)" for e
    by (cases "get_field_value e field") auto
  have "\<forall>e\<in>set data. \<exists>b. ?p e = Inr b"
    using assms by (auto split: sum.splits)
  from comprehension_if_total [OF this] show ?thesis
    by (simp add: eq)
qed

lemma filter_gt_Inr:
  assumes "filter_gt B data field v = Inr (out, data')"
  shows "data' = filter (\<lambda>e. \<exists>x. get_field_value e field = Inr x \<and> num_gt x v) data"
    and "\<forall>e\<in>set data. \<exists>x. get_field_value e field = Inr x"
    and "out = [''Filter: '' @ field @ '' gt '' @ py_str B v @ '' ('' @
                  show_nat (length data') @ '' entries)'']"
proof -
  from assms have c: "comprehension_if
             (\<lambda>entry. case get_field_value entry field of
                         Inl e \<Rightarrow> Inl e
                       | Inr x \<Rightarrow> Inr (num_gt x v)) data = Inr data'"
    and o: "out = [''Filter: '' @ field @ '' gt '' @ py_str B v @ '' ('' @
                  show_nat (length data') @ '' entries)'']"
    by (auto simp: filter_gt_def split: sum.splits)
  show "data' = filter (\<lambda>e. \<exists>x. get_field_value e field = Inr x \<and> num_gt x v) data"
    by (rule compare_comprehension_Inr(1) [OF c])
  show "\<forall>e\<in>set data. \<exists>x. get_field_value e field = Inr x"
    by (rule compare_comprehension_Inr(2) [OF c])
  show "out = [''Filter: '' @ field @ '' gt '' @ py_str B v @ '' ('' @
                  show_nat (length data') @ '' entries)'']"
    by (rule o)
qed

lemma filter_gt_total:
  assumes "\<forall>e\<in>set data. \<exists>x. get_field_value e field = Inr x"
  shows "filter_gt B data field v =
    Inr ([''Filter: '' @ field @ '' gt '' @ py_str B v @ '' ('' @
           show_nat (length (filter (\<lambda>e. \<exists>x. get_field_value e field = Inr x \<and>
             num_gt x v) data)) @ '' entries)''],
         filter (\<lambda>e. \<exists>x. get_field_value e field = Inr x \<and> num_gt x v) data)"
  unfolding filter_gt_def
  by (simp add: compare_comprehension_total [OF assms])

lemma filter_lt_Inr:
  assumes "filter_lt B data field v = Inr (out, data')"
  shows "data' = filter (\<lambda>e. \<exists>x. get_field_value e field = Inr x \<and> num_lt x v) data"
    and "\<forall>e\<in>set data. \<exists>x. get_field_value e field = Inr x"
    and "out = [''Filter: '' @ field @ '' lt '' @ py_str B v @ '' ('' @
                  show_nat (length data') @ '' entries)'']"
proof -
  from assms have c: "comprehension_if
             (\<lambda>entry. case get_field_value entry field of
                         Inl e \<Rightarrow> Inl e
                       | Inr x \<Rightarrow> Inr (num_lt x v)) data = Inr data'"
    and o: "out = [''Filter: '' @ field @ '' lt '' @ py_str B v @ '' ('' @
                  show_nat (length data') @ '' entries)'']"
    by (auto simp: filter_lt_def split: sum.splits)
  show "data' = filter (\<lambda>e. \<exists>x. get_field_value e field = Inr x \<and> num_lt x v) data"
    by (rule compare_comprehension_Inr(1) [OF c])
  show "\<forall>e\<in>set data. \<exists>x. get_field_value e field = Inr x"
    by (rule compare_comprehension_Inr(2) [OF c])
  show "out = [''Filter: '' @ field @ '' lt '' @ py_str B v @ '' ('' @
                  show_nat (length data') @ '' entries)'']"
    by (rule o)
qed

lemma filter_lt_total:
  assumes "\<forall>e\<in>set data. \<exists>x. get_field_value e field = Inr x"
  shows "filter_lt B data field v =
    Inr ([''Filter: '' @ field @ '' lt '' @ py_str B v @ '' ('' @
           show_nat (length (filter (\<lambda>e. \<exists>x. get_field_value e field = Inr x \<and>
             num_lt x v) data)) @ '' entries)''],
         filter (\<lambda>e. \<exists>x. get_field_value e field = Inr x \<and> num_lt x v) data)"
  unfolding filter_lt_def
  by (simp add: compare_comprehension_total [OF assms])

lemma filter_filter_same: "filter P (filter P xs) = filter P xs"
  by (induction xs) auto

lemma count_list_filter_le: "count_list (filter P xs) x \<le> count_list xs x"
  by (induction xs) auto

lemma show_nat_0: "show_nat 0 = ''0''"
  by (simp add: show_nat.simps)

lemma filter_lt_after_gt:
  assumes "filter_gt B data field v = Inr (out, data')"
  shows "filter_lt B data' field v =
           Inr ([''Filter: '' @ field @ '' lt '' @ py_str B v @ '' (0 entries)''], [])"
proof -
  let ?G = "\<lambda>e. \<exists>x. get_field_value e field = Inr x \<and> num_gt x v"
  let ?L = "\<lambda>e. \<exists>x. get_field_value e field = Inr x \<and> num_lt x v"
  have d: "data' = filter ?G data" by (rule filter_gt_Inr(1) [OF assms])
  have res: "\<forall>e\<in>set data'. \<exists>x. get_field_value e field = Inr x"
    using filter_gt_Inr(2) [OF assms] d by auto
  have "\<not> ?L e" if "e \<in> set data'" for e
    using that d num_lt_asym by (auto simp: num_gt_def)
  then have "filter ?L data' = []" by (auto simp: filter_empty_conv)
  with filter_lt_total [OF res, of B v] show ?thesis
    by (simp add: show_nat_0)
qed

text \<open>
  Claim C7. For every dataset, field and threshold such that the field resolves on every
  record, \<open>filter_gt\<close> succeeds, and \<open>filter_lt\<close> with the same field and threshold on
  its result succeeds and yields the empty dataset (printing a count of 0).
\<close>

theorem filter_gt_then_lt_empty:
  assumes "\<forall>e\<in>set data. \<exists>x. get_field_value e field = Inr x"
  shows "\<exists>out data'.
           filter_gt B data field v = Inr (out, data') \<and>
           filter_lt B data' field v =
             Inr ([''Filter: '' @ field @ '' lt '' @ py_str B v @ '' (0 entries)''], [])"
proof -
  from filter_gt_total [OF assms, of B v] obtain out data'
    where g: "filter_gt B data field v = Inr (out, data')"
    by blast
  from g filter_lt_after_gt [OF g] show ?thesis
    by blast
qed

theorem filter_gt_then_lt_empty_witness:
  "get_field_value ex_alpha ''Education.Bachelor's Degree or Higher'' = Inr (PyFloat 25) \<and>
   get_field_value ex_beta ''Education.Bachelor's Degree or Higher'' = Inr (PyFloat 5) \<and>
   filter_gt ex_builtins [ex_alpha, ex_beta] ''Education.Bachelor's Degree or Higher''
     (PyFloat 10) =
     Inr ([''Filter: Education.Bachelor's Degree or Higher gt 10.0 (1 entries)''],
          [ex_alpha]) \<and>
   filter_lt ex_builtins [ex_alpha] ''Education.Bachelor's Degree or Higher'' (PyFloat 10) =
     Inr ([''Filter: Education.Bachelor's Degree or Higher lt 10.0 (0 entries)''], [])"
proof -
  let ?f = "''Education.Bachelor's Degree or Higher''"
  have va: "get_field_value ex_alpha ?f = Inr (PyFloat 25)"
    and vb: "get_field_value ex_beta ?f = Inr (PyFloat 5)"
    by (simp_all add: ex_defs eval_defs)
  have r: "\<forall>e\<in>set [ex_alpha, ex_beta]. \<exists>x. get_field_value e ?f = Inr x"
    using va vb by simp
  have h: "filter_gt ex_builtins [ex_alpha, ex_beta] ?f (PyFloat 10) =
           Inr ([''Filter: Education.Bachelor's Degree or Higher gt 10.0 (1 entries)''],
                [ex_alpha])"
    by (simp add: ex_defs eval_defs)
  show ?thesis
    using va vb h filter_gt_then_lt_empty [OF r, of ex_builtins "PyFloat 10"]
    by (simp add: ex_builtins_def py_str_def)
qed

text \<open>
  Claim C8. For every dataset and every successful \<open>filter_state\<close>, \<open>filter_gt\<close> or
  \<open>filter_lt\<close>: the result has at most as many records as the input, every record of
  the result satisfies the predicate of the filter (its state is the one asked for; its
  field resolves to a value strictly greater, or strictly less, than the threshold), and
  the same filter applied to the result returns the result again, with the same printed
  line.
\<close>

theorem filters_narrow:
  "(filter_state data st = (out, data') \<longrightarrow>
      length data' \<le> length data \<and> (\<forall>e\<in>set data'. state e = st) \<and>
      filter_state data' st = (out, data')) \<and>
   (filter_gt B data field v = Inr (out, data') \<longrightarrow>
      length data' \<le> length data \<and>
      (\<forall>e\<in>set data'. \<exists>x. get_field_value e field = Inr x \<and> num_gt x v) \<and>
      filter_gt B data' field v = Inr (out, data')) \<and>
   (filter_lt B data field v = Inr (out, data') \<longrightarrow>
      length data' \<le> length data \<and>
      (\<forall>e\<in>set data'. \<exists>x. get_field_value e field = Inr x \<and> num_lt x v) \<and>
      filter_lt B data' field v = Inr (out, data'))"
proof (intro conjI impI)
  assume a: "filter_state data st = (out, data')"
  then have d: "data' = filter (\<lambda>entry. state entry = st) data"
    and o: "out = [''Filter: state == '' @ st @ '' ('' @ show_nat (length data') @ '' entries)'']"
    by (auto simp: filter_state_def Let_def)
  show "length data' \<le> length data" using d by simp
  show "\<forall>e\<in>set data'. state e = st" using d by simp
  have "filter (\<lambda>entry. state entry = st) data' = data'"
    using d by (simp add: filter_filter_same)
  then show "filter_state data' st = (out, data')"
    using o by (simp add: filter_state_def Let_def)
next
  assume a: "filter_gt B data field v = Inr (out, data')"
  let ?G = "\<lambda>e. \<exists>x. get_field_value e field = Inr x \<and> num_gt x v"
  have d: "data' = filter ?G data" by (rule filter_gt_Inr(1) [OF a])
  show "length data' \<le> length data" using d by simp
  show s: "\<forall>e\<in>set data'. \<exists>x. get_field_value e field = Inr x \<and> num_gt x v"
    using d by simp
  then have res: "\<forall>e\<in>set data'. \<exists>x. get_field_value e field = Inr x" by blast
  have "filter ?G data' = data'" using d by (simp add: filter_filter_same)
  with filter_gt_total [OF res, of B v] filter_gt_Inr(3) [OF a]
  show "filter_gt B data' field v = Inr (out, data')" by simp
next
  assume a: "filter_lt B data field v = Inr (out, data')"
  let ?L = "\<lambda>e. \<exists>x. get_field_value e field = Inr x \<and> num_lt x v"
  have d: "data' = filter ?L data" by (rule filter_lt_Inr(1) [OF a])
  show "length data' \<le> length data" using d by simp
  show s: "\<forall>e\<in>set data'. \<exists>x. get_field_value e field = Inr x \<and> num_lt x v"
    using d by simp
  then have res: "\<forall>e\<in>set data'. \<exists>x. get_field_value e field = Inr x" by blast
  have "filter ?L data' = data'" using d by (simp add: filter_filter_same)
  with filter_lt_total [OF res, of B v] filter_lt_Inr(3) [OF a]
  show "filter_lt B data' field v = Inr (out, data')" by simp
qed

theorem filters_narrow_witness:
  "filter_state [ex_alpha, ex_beta] ''NY'' =
     ([''Filter: state == NY (1 entries)''], [ex_beta]) \<and>
   length [ex_beta] \<le> length [ex_alpha, ex_beta] \<and>
   state ex_beta = ''NY'' \<and>
   filter_state [ex_beta] ''NY'' = ([''Filter: state == NY (1 entries)''], [ex_beta]) \<and>
   filter_gt ex_builtins [ex_alpha, ex_beta] ''Education.Bachelor's Degree or Higher''
     (PyFloat 10) =
     Inr ([''Filter: Education.Bachelor's Degree or Higher gt 10.0 (1 entries)''],
          [ex_alpha]) \<and>
   get_field_value ex_alpha ''Education.Bachelor's Degree or Higher'' = Inr (PyFloat 25) \<and>
   num_gt (PyFloat 25) (PyFloat 10) \<and>
   filter_gt ex_builtins [ex_alpha] ''Education.Bachelor's Degree or Higher'' (PyFloat 10) =
     Inr ([''Filter: Education.Bachelor's Degree or Higher gt 10.0 (1 entries)''],
          [ex_alpha]) \<and>
   filter_lt ex_builtins [ex_alpha, ex_beta] ''Education.Bachelor's Degree or Higher''
     (PyFloat 10) =
     Inr ([''Filter: Education.Bachelor's Degree or Higher lt 10.0 (1 entries)''],
          [ex_beta]) \<and>
   get_field_value ex_beta ''Education.Bachelor's Degree or Higher'' = Inr (PyFloat 5) \<and>
   num_lt (PyFloat 5) (PyFloat 10) \<and>
   filter_lt ex_builtins [ex_beta] ''Education.Bachelor's Degree or Higher'' (PyFloat 10) =
     Inr ([''Filter: Education.Bachelor's Degree or Higher lt 10.0 (1 entries)''],
          [ex_beta])"
proof -
  let ?f = "''Education.Bachelor's Degree or Higher''"
  let ?og = "[''Filter: Education.Bachelor's Degree or Higher gt 10.0 (1 entries)'']"
  let ?ol = "[''Filter: Education.Bachelor's Degree or Higher lt 10.0 (1 entries)'']"
  have s: "filter_state [ex_alpha, ex_beta] ''NY'' =
             ([''Filter: state == NY (1 entries)''], [ex_beta])"
    by (simp add: ex_defs eval_defs)
  have g: "filter_gt ex_builtins [ex_alpha, ex_beta] ?f (PyFloat 10) = Inr (?og, [ex_alpha])"
    by (simp add: ex_defs eval_defs)
  have l: "filter_lt ex_builtins [ex_alpha, ex_beta] ?f (PyFloat 10) = Inr (?ol, [ex_beta])"
    by (simp add: ex_defs eval_defs)
  have va: "get_field_value ex_alpha ?f = Inr (PyFloat 25)"
    and vb: "get_field_value ex_beta ?f = Inr (PyFloat 5)"
    by (simp_all add: ex_defs eval_defs)
  have c: "num_gt (PyFloat 25) (PyFloat 10)" "num_lt (PyFloat 5) (PyFloat 10)" "state ex_beta = ''NY''"
    by (simp_all add: num_gt_def ex_defs)
  have s': "filter_state [ex_beta] ''NY'' = ([''Filter: state == NY (1 entries)''], [ex_beta])"
    using s filters_narrow [of "[ex_alpha, ex_beta]" "''NY''"
        "[''Filter: state == NY (1 entries)'']" "[ex_beta]"]
    by blast
  have g': "filter_gt ex_builtins [ex_alpha] ?f (PyFloat 10) = Inr (?og, [ex_alpha])"
    using g filters_narrow [where data = "[ex_alpha, ex_beta]" and out = ?og
        and data' = "[ex_alpha]" and B = ex_builtins and field = ?f and v = "PyFloat 10"]
    by blast
  have l': "filter_lt ex_builtins [ex_beta] ?f (PyFloat 10) = Inr (?ol, [ex_beta])"
    using l filters_narrow [where data = "[ex_alpha, ex_beta]" and out = ?ol
        and data' = "[ex_beta]" and B = ex_builtins and field = ?f and v = "PyFloat 10"]
    by blast
  show ?thesis
    using s g l va vb c s' g' l' by simp
qed

text \<open>
  Claim C10. Every successful filter returns a subsequence of its input: the surviving
  records in the order they had, none repeated more often than in the input and none
  that the input did not hold.
\<close>

theorem filters_subseq:
  "(filter_state data st = (out, data') \<longrightarrow>
      subseq data' data \<and> (\<forall>e. count_list data' e \<le> count_list data e)) \<and>
   (filter_gt B data field v = Inr (out, data') \<longrightarrow>
      subseq data' data \<and> (\<forall>e. count_list data' e \<le> count_list data e)) \<and>
   (filter_lt B data field v = Inr (out, data') \<longrightarrow>
      subseq data' data \<and> (\<forall>e. count_list data' e \<le> count_list data e))"
proof (intro conjI impI allI)
  assume "filter_state data st = (out, data')"
  then have d: "data' = filter (\<lambda>entry. state entry = st) data"
    by (auto simp: filter_state_def Let_def)
  show "subseq data' data" using d by simp
  show "count_list data' e \<le> count_list data e" for e
    using d by (simp add: count_list_filter_le)
next
  assume a: "filter_gt B data field v = Inr (out, data')"
  note d = filter_gt_Inr(1) [OF a]
  show "subseq data' data" by (subst d) simp
  show "count_list data' e \<le> count_list data e" for e
    by (subst d) (rule count_list_filter_le)
next
  assume a: "filter_lt B data field v = Inr (out, data')"
  note d = filter_lt_Inr(1) [OF a]
  show "subseq data' data" by (subst d) simp
  show "count_list data' e \<le> count_list data e" for e
    by (subst d) (rule count_list_filter_le)
qed

theorem filters_subseq_witness:
  "filter_state [ex_alpha, ex_beta, ex_alpha] ''CA'' =
     ([''Filter: state == CA (2 entries)''], [ex_alpha, ex_alpha]) \<and>
   subseq [ex_alpha, ex_alpha] [ex_alpha, ex_beta, ex_alpha] \<and>
   filter_gt ex_builtins [ex_alpha, ex_beta, ex_alpha]
     ''Education.Bachelor's Degree or Higher'' (PyFloat 10) =
     Inr ([''Filter: Education.Bachelor's Degree or Higher gt 10.0 (2 entries)''],
          [ex_alpha, ex_alpha]) \<and>
   filter_lt ex_builtins [ex_alpha, ex_beta, ex_alpha]
     ''Education.Bachelor's Degree or Higher'' (PyFloat 10) =
     Inr ([''Filter: Education.Bachelor's Degree or Higher lt 10.0 (1 entries)''],
          [ex_beta]) \<and>
   subseq [ex_beta] [ex_alpha, ex_beta, ex_alpha] \<and>
   count_list [ex_beta] ex_beta \<le> count_list [ex_alpha, ex_beta, ex_alpha] ex_beta"
proof -
  let ?f = "''Education.Bachelor's Degree or Higher''"
  let ?d = "[ex_alpha, ex_beta, ex_alpha]"
  have s: "filter_state ?d ''CA'' =
             ([''Filter: state == CA (2 entries)''], [ex_alpha, ex_alpha])"
    by (simp add: ex_defs eval_defs)
  have g: "filter_gt ex_builtins ?d ?f (PyFloat 10) =
             Inr ([''Filter: Education.Bachelor's Degree or Higher gt 10.0 (2 entries)''],
                  [ex_alpha, ex_alpha])"
    by (simp add: ex_defs eval_defs)
  have l: "filter_lt ex_builtins ?d ?f (PyFloat 10) =
             Inr ([''Filter: Education.Bachelor's Degree or Higher lt 10.0 (1 entries)''],
                  [ex_beta])"
    by (simp add: ex_defs eval_defs)
  have s': "subseq [ex_alpha, ex_alpha] ?d"
    using s filters_subseq [of ?d "''CA''" _ "[ex_alpha, ex_alpha]"] by blast
  have g': "subseq [ex_alpha, ex_alpha] ?d"
    using g filters_subseq [where data = ?d and data' = "[ex_alpha, ex_alpha]"
        and B = ex_builtins and field = ?f and v = "PyFloat 10"]
    by blast
  have l': "subseq [ex_beta] ?d \<and> count_list [ex_beta] ex_beta \<le> count_list ?d ex_beta"
    using l filters_subseq [where data = ?d and data' = "[ex_beta]" and B = ex_builtins
        and field = ?f and v = "PyFloat 10"] by blast
  show ?thesis
    using s g l s' g' l' by simp
qed

section \<open>The interpreter loop\<close>

lemma for_loop_append:
  "for_loop B data idx (xs @ ys) =
     (case for_loop B data idx xs of
        (out, Inl e) \<Rightarrow> (out, Inl e)
      | (out, Inr data') \<Rightarrow>
          (case for_loop B data' (idx + length xs) ys of
             (out', r) \<Rightarrow> (out @ out', r)))"
proof (induction xs arbitrary: data idx)
  case Nil
  show ?case by (simp split: prod.splits)
next
  case (Cons x xs)
  show ?case
    by (simp add: Cons split: prod.splits sum.splits)
qed

lemma index_split_0: "index (split c s) 0 = Inr (hd (split c s))"
  using split_not_Nil [of c s] by (cases "split c s") (auto simp: index_def)

lemma try_body_unknown:
  assumes "op = hd (split CHR '':'' line)"
    and "op \<notin> {''display'', ''filter-state'', ''filter-gt'', ''filter-lt'', ''population-total''}"
    and "\<not> prefix ''population'' op" and "\<not> prefix ''percent'' op"
  shows "try_body B data line = Inl (ValueError ''Unknown operation'')"
  using assms unfolding try_body_def Let_def index_split_0 by simp

text \<open>
  Claim C6, as amended. A line whose text is not blank and whose opcode (the text before
  the first colon, after \<open>strip\<close>) is none of the five opcodes matched exactly and starts
  with neither \<^verbatim>\<open>population\<close> nor \<^verbatim>\<open>percent\<close> prints exactly one line,
  \<^verbatim>\<open>Error: Malformed line n: text\<close>, where \<open>n\<close> is the 1-based number of the line in
  the file (blank lines counted) and \<open>text\<close> is the line with its leading and trailing
  whitespace removed; the lines after it run on the dataset the lines before it left.
\<close>

theorem unknown_opcode_line:
  assumes "strip line0 \<noteq> []"
    and "op = hd (split CHR '':'' (strip line0))"
    and "op \<notin> {''display'', ''filter-state'', ''filter-gt'', ''filter-lt'', ''population-total''}"
    and "\<not> prefix ''population'' op" and "\<not> prefix ''percent'' op"
    and "for_loop B data 0 before = (out, Inr data')"
  shows "loop_body B data' (length before) line0 =
           ([''Error: Malformed line '' @ show_nat (length before + 1) @ '': '' @ strip line0],
            Inr data') \<and>
         for_loop B data 0 (before @ line0 # rest) =
           (out @ [''Error: Malformed line '' @ show_nat (length before + 1) @ '': '' @
                     strip line0] @ fst (for_loop B data' (length before + 1) rest),
            snd (for_loop B data' (length before + 1) rest))"
proof -
  have t: "try_body B data' (strip line0) = Inl (ValueError ''Unknown operation'')"
    by (rule try_body_unknown [OF assms(2-5)])
  have b: "loop_body B data' (length before) line0 =
           ([''Error: Malformed line '' @ show_nat (length before + 1) @ '': '' @ strip line0],
            Inr data')"
    using assms(1) t by (simp add: loop_body_def Let_def)
  show ?thesis
    using b assms(6) by (simp add: for_loop_append split: prod.splits)
qed

theorem unknown_opcode_line_witness:
  "strip (''  bogus:1 '' @ [CHR 0x0A]) = ''bogus:1'' \<and>
   hd (split CHR '':'' ''bogus:1'') = ''bogus'' \<and>
   for_loop ex_builtins [ex_alpha] 0 [[CHR 0x0A]] = ([], Inr [ex_alpha]) \<and>
   loop_body ex_builtins [ex_alpha] 1 (''  bogus:1 '' @ [CHR 0x0A]) =
     ([''Error: Malformed line 2: bogus:1''], Inr [ex_alpha]) \<and>
   for_loop ex_builtins [ex_alpha] 0 [[CHR 0x0A], ''  bogus:1 '' @ [CHR 0x0A]] =
     ([''Error: Malformed line 2: bogus:1''], Inr [ex_alpha])"
proof -
  have s: "strip (''  bogus:1 '' @ [CHR 0x0A]) = ''bogus:1''"
    by (simp add: strip_def isspace_def)
  have h: "hd (split CHR '':'' ''bogus:1'') = ''bogus''"
    by simp
  have b: "for_loop ex_builtins [ex_alpha] 0 [[CHR 0x0A]] = ([], Inr [ex_alpha])"
    by (simp add: loop_body_def strip_def isspace_def)
  have n: "show_nat (Suc (Suc 0)) = ''2''"
    by (simp add: show_nat.simps)
  show ?thesis
    using s h b n
      unknown_opcode_line [where ?line0.0 = "''  bogus:1 '' @ [CHR 0x0A]" and op = "''bogus''"
        and B = ex_builtins and data = "[ex_alpha]" and before = "[[CHR 0x0A]]" and out = "[]"
        and data' = "[ex_alpha]" and rest = "[]"]
    by simp
qed

text \<open>
  The error line does not carry the text of the line as it stands in the file: the two
  leading spaces of this line (and its line break) are gone.
\<close>

theorem unknown_opcode_original_text_counterexample:
  "for_loop ex_builtins [ex_alpha] 0 [''  bogus:1'' @ [CHR 0x0A]] =
     ([''Error: Malformed line 1: bogus:1''], Inr [ex_alpha]) \<and>
   ''Error: Malformed line 1: bogus:1'' \<noteq> ''Error: Malformed line 1:   bogus:1'' \<and>
   ''Error: Malformed line 1: bogus:1'' \<noteq>
     ''Error: Malformed line 1: '' @ ''  bogus:1'' @ [CHR 0x0A]"
  by (simp add: ex_defs eval_defs)

text \<open>
  Claim C5, as amended. A \<^verbatim>\<open>filter-lt\<close> line whose threshold parses and whose field
  resolves on every record prints the count of the records whose value is strictly less
  than the threshold, and these records become the current dataset: the lines after it
  see the narrowed dataset, as after \<^verbatim>\<open>filter-gt\<close>.
\<close>

theorem filter_lt_line_replaces:
  assumes "split CHR '':'' (strip line0) = ''filter-lt'' # field # s # others"
    and "float_of_str B s = Some v"
    and "\<forall>e\<in>set data. \<exists>x. get_field_value e field = Inr x"
  shows "loop_body B data idx line0 =
           ([''Filter: '' @ field @ '' lt '' @ py_str B v @ '' ('' @
               show_nat (length (filter (\<lambda>e. \<exists>x. get_field_value e field = Inr x \<and>
                 num_lt x v) data)) @ '' entries)''],
            Inr (filter (\<lambda>e. \<exists>x. get_field_value e field = Inr x \<and> num_lt x v) data))"
proof -
  have ne: "strip line0 \<noteq> []"
    using assms(1) by auto
  have t: "try_body B data (strip line0) = filter_lt B data field v"
    using assms(1,2) by (simp add: try_body_def index_def float_def)
  show ?thesis
    using ne t filter_lt_total [OF assms(3), of B v]
    by (simp add: loop_body_def Let_def)
qed

theorem filter_lt_line_replaces_witness:
  "split CHR '':'' (strip (''filter-lt:Education.Bachelor's Degree or Higher:10'' @ [CHR 0x0A])) =
     [''filter-lt'', ''Education.Bachelor's Degree or Higher'', ''10''] \<and>
   float_of_str ex_builtins ''10'' = Some (PyFloat 10) \<and>
   get_field_value ex_alpha ''Education.Bachelor's Degree or Higher'' = Inr (PyFloat 25) \<and>
   get_field_value ex_beta ''Education.Bachelor's Degree or Higher'' = Inr (PyFloat 5) \<and>
   loop_body ex_builtins [ex_alpha, ex_beta] 0
     (''filter-lt:Education.Bachelor's Degree or Higher:10'' @ [CHR 0x0A]) =
     ([''Filter: Education.Bachelor's Degree or Higher lt 10.0 (1 entries)''], Inr [ex_beta])"
proof -
  let ?f = "''Education.Bachelor's Degree or Higher''"
  have s: "split CHR '':'' (strip (''filter-lt:Education.Bachelor's Degree or Higher:10'' @
             [CHR 0x0A])) = ''filter-lt'' # ?f # ''10'' # []"
    by (simp add: strip_def isspace_def)
  have p: "float_of_str ex_builtins ''10'' = Some (PyFloat 10)"
    by (simp add: ex_builtins_def)
  have va: "get_field_value ex_alpha ?f = Inr (PyFloat 25)"
    and vb: "get_field_value ex_beta ?f = Inr (PyFloat 5)"
    by (simp_all add: ex_defs eval_defs)
  have r: "\<forall>e\<in>set [ex_alpha, ex_beta]. \<exists>x. get_field_value e ?f = Inr x"
    using va vb by simp
  have n: "show_nat 1 = ''1''"
    by (simp add: show_nat.simps)
  show ?thesis
    using s p va vb n filter_lt_line_replaces [OF s p r, of 0]
    by (simp add: py_str_def ex_builtins_def)
qed

text \<open>
  After a \<^verbatim>\<open>filter-lt\<close> line the dataset is not the one from before the line:
  \<^verbatim>\<open>population-total\<close> on the next line adds up the one remaining record.
\<close>

theorem filter_lt_keeps_dataset_counterexample:
  "for_loop ex_builtins [ex_alpha, ex_beta] 0
     [''filter-lt:Education.Bachelor's Degree or Higher:10'' @ [CHR 0x0A],
      ''population-total'' @ [CHR 0x0A]] =
     ([''Filter: Education.Bachelor's Degree or Higher lt 10.0 (1 entries)'',
       ''2014 population: 100''], Inr [ex_beta]) \<and>
   population_total ex_builtins [ex_alpha, ex_beta] = Inr [''2014 population: 300''] \<and>
   [ex_beta] \<noteq> [ex_alpha, ex_beta]"
  by (simp add: ex_defs eval_defs)

section \<open>Exceptions that leave a line\<close>

lemma get_field_value_exn:
  "get_field_value e f = Inl x \<Longrightarrow> (\<exists>m. x = ValueError m) \<or> (\<exists>k. x = KeyError k)"
  unfolding get_field_value_parts Let_def
  by (auto simp: subscript_def split: if_splits option.splits)

lemma comprehension_if_exn:
  "comprehension_if p xs = Inl x \<Longrightarrow> \<exists>e\<in>set xs. p e = Inl x"
  by (induction xs) (auto split: sum.splits)

lemma generator_exn:
  "generator f xs = Inl x \<Longrightarrow> \<exists>e\<in>set xs. f e = Inl x"
  by (induction xs) (auto split: sum.splits)


lemma generator_Inr:
  "generator f xs = Inr ys \<Longrightarrow> \<forall>y\<in>set ys. \<exists>e\<in>set xs. f e = Inr y"
  by (induction xs arbitrary: ys) (auto split: sum.splits)

lemma case_sum_Inl:
  "(case r of Inl e \<Rightarrow> Inl e | Inr y \<Rightarrow> Inr (h y)) = Inl x \<Longrightarrow> r = Inl x"
  by (cases r) auto

lemma filter_gt_exn:
  assumes "filter_gt B data field v = Inl x"
  shows "(\<exists>m. x = ValueError m) \<or> (\<exists>k. x = KeyError k)"
proof -
  from assms have "comprehension_if
             (\<lambda>entry. case get_field_value entry field of
                         Inl e \<Rightarrow> Inl e
                       | Inr x \<Rightarrow> Inr (num_gt x v)) data = Inl x"
    by (auto simp: filter_gt_def split: sum.splits)
  from comprehension_if_exn [OF this] obtain e where
    "(case get_field_value e field of Inl e \<Rightarrow> Inl e | Inr x \<Rightarrow> Inr (num_gt x v)) = Inl x"
    by blast
  then have "get_field_value e field = Inl x" by (rule case_sum_Inl)
  then show ?thesis by (rule get_field_value_exn)
qed

lemma filter_lt_exn:
  assumes "filter_lt B data field v = Inl x"
  shows "(\<exists>m. x = ValueError m) \<or> (\<exists>k. x = KeyError k)"
proof -
  from assms have "comprehension_if
             (\<lambda>entry. case get_field_value entry field of
                         Inl e \<Rightarrow> Inl e
                       | Inr x \<Rightarrow> Inr (num_lt x v)) data = Inl x"
    by (auto simp: filter_lt_def split: sum.splits)
  from comprehension_if_exn [OF this] obtain e where
    "(case get_field_value e field of Inl e \<Rightarrow> Inl e | Inr x \<Rightarrow> Inr (num_lt x v)) = Inl x"
    by blast
  then have "get_field_value e field = Inl x" by (rule case_sum_Inl)
  then show ?thesis by (rule get_field_value_exn)
qed

lemma py_sum_exn: "py_sum B xs = Inl x \<Longrightarrow> x = OverflowError"
  by (auto simp: py_sum_def split: if_splits)

lemma py_mul_exn: "py_mul B x y = Inl e \<Longrightarrow> e = OverflowError"
  by (auto simp: py_mul_def split: num.splits if_splits)

lemma as_float_not_int: "\<not> is_int (as_float x)"
  by (cases x) auto

lemma py_mul_float: "py_mul B x y = Inr z \<Longrightarrow> \<not> is_int y \<Longrightarrow> \<not> is_int z"
  by (auto simp: py_mul_def as_float_not_int split: num.splits if_splits)

lemma py_truediv_float: "py_truediv B x y = Inr z \<Longrightarrow> \<not> is_int z"
  by (auto simp: py_truediv_def as_float_not_int split: num.splits if_splits)

lemma py_truediv_100_exn: "py_truediv B x (PyInt 100) = Inl e \<Longrightarrow> e = OverflowError"
  by (auto simp: py_truediv_def split: num.splits if_splits)

lemma num_gt_not_zero: "num_gt y (PyInt 0) \<Longrightarrow> \<not> is_zero y"
  by (cases y) (auto simp: num_gt_def)

lemma py_truediv_guarded_exn:
  "num_gt y (PyInt 0) \<Longrightarrow> py_truediv B x y = Inl e \<Longrightarrow> e = OverflowError"
  using num_gt_not_zero [of y]
  by (cases y) (auto simp: py_truediv_def num_gt_def split: num.splits if_splits)

lemma py_format15_exn: "py_format15 B x = Inl e \<Longrightarrow> e = OverflowError"
  by (auto simp: py_format15_def split: if_splits)

lemma item_exn:
  assumes "(case get_field_value entry field of
              Inl e \<Rightarrow> Inl e
            | Inr x \<Rightarrow>
                (case py_truediv B x (PyInt 100) of
                   Inl e \<Rightarrow> Inl e
                 | Inr q \<Rightarrow> py_mul B p q)) = Inl x"
  shows "(\<exists>m. x = ValueError m) \<or> (\<exists>k. x = KeyError k) \<or> x = OverflowError"
  using assms
  by (auto split: sum.splits dest: get_field_value_exn py_truediv_100_exn py_mul_exn)

lemma items_exn:
  assumes "generator
             (\<lambda>entry. case get_field_value entry field of
                         Inl e \<Rightarrow> Inl e
                       | Inr x \<Rightarrow>
                           (case py_truediv B x (PyInt 100) of
                              Inl e \<Rightarrow> Inl e
                            | Inr q \<Rightarrow> py_mul B (p entry) q)) data = Inl x"
  shows "(\<exists>m. x = ValueError m) \<or> (\<exists>k. x = KeyError k) \<or> x = OverflowError"
proof -
  from generator_exn [OF assms] obtain e where
    "(case get_field_value e field of
              Inl e \<Rightarrow> Inl e
            | Inr x \<Rightarrow>
                (case py_truediv B x (PyInt 100) of
                   Inl e \<Rightarrow> Inl e
                 | Inr q \<Rightarrow> py_mul B (p e) q)) = Inl x"
    by blast
  then show ?thesis by (rule item_exn)
qed

lemma except_ValueError_exn:
  assumes "except_ValueError r = Inl x"
  shows "r = Inl x \<and> (\<forall>m. x \<noteq> ValueError m)"
  using assms by (auto simp: except_ValueError_def split: sum.splits exn.splits)

lemma population_field_exn:
  assumes "population_field B data field = Inl x"
  shows "(\<exists>k. x = KeyError k) \<or> x = OverflowError"
proof -
  from except_ValueError_exn [OF assms [unfolded population_field_def]]
  have nv: "\<forall>m. x \<noteq> ValueError m"
    and "(\<exists>m. x = ValueError m) \<or> (\<exists>k. x = KeyError k) \<or> x = OverflowError"
    by (auto split: sum.splits dest: py_sum_exn items_exn py_format15_exn)
  then show ?thesis by blast
qed

lemma percent_field_exn:
  assumes "percent_field B data field = Inl x"
  shows "(\<exists>k. x = KeyError k) \<or> x = OverflowError"
proof -
  from except_ValueError_exn [OF assms [unfolded percent_field_def]]
  have nv: "\<forall>m. x \<noteq> ValueError m"
    and "(\<exists>m. x = ValueError m) \<or> (\<exists>k. x = KeyError k) \<or> x = OverflowError"
    by (auto split: sum.splits if_splits
        dest: py_sum_exn items_exn py_truediv_guarded_exn py_mul_exn)
  then show ?thesis by blast
qed

lemma population_total_exn: "population_total B data = Inl x \<Longrightarrow> x = OverflowError"
  by (auto simp: population_total_def split: sum.splits dest: py_sum_exn)

lemma index_exn: "index xs i = Inl x \<Longrightarrow> x = IndexError"
  by (auto simp: index_def split: if_splits)

lemma float_exn: "float B s = Inl x \<Longrightarrow> \<exists>m. x = ValueError m"
  by (auto simp: float_def split: option.splits)

lemma try_body_exn:
  assumes "try_body B data line = Inl x"
  shows "(\<exists>m. x = ValueError m) \<or> x = IndexError \<or> (\<exists>k. x = KeyError k) \<or>
         x = OverflowError"
  using assms unfolding try_body_def Let_def
  by (auto split: sum.splits if_splits
      dest: index_exn float_exn filter_gt_exn filter_lt_exn population_field_exn
        percent_field_exn population_total_exn)

lemma loop_body_escape:
  assumes "loop_body B data idx line0 = (out, Inl x)"
  shows "out = [] \<and> ((\<exists>k. x = KeyError k) \<or> x = OverflowError)"
proof -
  from assms have ne: "strip line0 \<noteq> []"
    by (auto simp: loop_body_def Let_def split: if_splits)
  from assms ne have t: "try_body B data (strip line0) = Inl x" and o: "out = []"
    by (auto simp: loop_body_def Let_def split: sum.splits exn.splits)
  from assms ne have nv: "\<forall>m. x \<noteq> ValueError m" and ni: "x \<noteq> IndexError"
    by (auto simp: loop_body_def Let_def split: sum.splits exn.splits)
  from try_body_exn [OF t] nv ni o show ?thesis by blast
qed

text \<open>
  Claim C1 says that no error of a line ends the process, in particular not a missing
  key during a filter. By \<open>loop_body_escape\<close> the exceptions that leave a line are
  KeyError and the OverflowError of an int beyond the range of a float, nothing else;
  KeyError does leave it. Here the field names a key that no record has: the lookup
  raises KeyError, the handler of the loop catches ValueError and IndexError only,
  nothing is printed and the second line never runs.
\<close>

theorem missing_key_in_filter_escapes:
  "execute_operations ex_builtins
     [''ops.txt'' \<mapsto> [''filter-gt:Education.Masters:10'' @ [CHR 0x0A],
                      ''population-total'' @ [CHR 0x0A]]]
     [ex_alpha, ex_beta] ''ops.txt'' =
     ([], Inl (KeyError ''Masters''))"
  by (simp add: execute_operations_def ex_defs eval_defs)

text \<open>
  Claim C2 says that a field that fails to resolve inside \<^verbatim>\<open>population-<field>\<close> or
  \<^verbatim>\<open>percent-<field>\<close> prints \<^verbatim>\<open>Error: <message>\<close> also when the key is absent. The
  handlers of \<open>population_field\<close> and \<open>percent_field\<close> catch ValueError only: the
  KeyError of an absent key leaves them, and the loop, and ends the process.
\<close>

theorem missing_key_in_aggregate_escapes:
  "execute_operations ex_builtins
     [''ops.txt'' \<mapsto> [''population:Education.Masters'' @ [CHR 0x0A],
                      ''population-total'' @ [CHR 0x0A]]]
     [ex_alpha, ex_beta] ''ops.txt'' =
     ([], Inl (KeyError ''Masters'')) \<and>
   execute_operations ex_builtins
     [''ops.txt'' \<mapsto> [''percent:Education.Masters'' @ [CHR 0x0A],
                      ''population-total'' @ [CHR 0x0A]]]
     [ex_alpha, ex_beta] ''ops.txt'' =
     ([], Inl (KeyError ''Masters'')) \<and>
   population_field ex_builtins [ex_alpha, ex_beta] ''Education.Masters'' =
     Inl (KeyError ''Masters'') \<and>
   percent_field ex_builtins [ex_alpha, ex_beta] ''Education.Masters'' =
     Inl (KeyError ''Masters'')"
  by (simp add: execute_operations_def ex_defs eval_defs)

section \<open>The weighted reports\<close>































end
